theory Spec2Isabelle
  imports Main "HOL-Library.Multiset"
begin

section \<open>Data model of seasonals.py\<close>

text \<open>
  The pydantic models of the script become records; Python's unbounded \<open>int\<close> is
  \<^typ>\<open>int\<close>, \<open>Optional[t]\<close> is \<^typ>\<open>'a option\<close> and \<open>str\<close> is \<^typ>\<open>string\<close>
  (the UTF-8 bytes of the text). Field names that clash with a HOL constant or with
  a field of another record carry the record's name as a suffix.
\<close>

record PageInfo =
  hasNextPage :: bool

record Date =
  year :: "int option"
  month :: "int option"
  day :: "int option"

record Tag =
  id_Tag :: int
  name :: string
  category :: string
  rank_Tag :: int

record Title =
  romaji :: string
  english :: "string option"
  native :: string
  userPreferred :: string

record MediaEdge =
  relationType :: string

record MediaConnection =
  edges :: "MediaEdge list"

record Media =
  id_Media :: int
  startDate :: Date
  isAdult :: bool
  episodes :: "int option"
  isLicensed :: bool
  genres :: "string list"
  tags :: "Tag list"
  title :: Title
  relations :: MediaConnection
  format :: "string option"

record AnimePage =
  pageInfo :: PageInfo
  media :: "Media list"

datatype MediaSeason = WINTER | SPRING | SUMMER | FALL

record MediaEntry =
  id_MediaEntry :: int
  mediaId :: int
  status :: string
  progress :: int
  score :: int

record MediaList =
  entries :: "MediaEntry list"

record MediaListCollection =
  lists :: "MediaList list"

section \<open>Date comparison\<close>

text \<open>
  \<open>Date.__lt__\<close>, branch by branch: each \<open>if ...: return\<close> of the source is one
  case or conditional here, in the source's order.
\<close>

definition Date_lt :: "Date \<Rightarrow> Date \<Rightarrow> bool" where
  "Date_lt self other =
     (case year self of None \<Rightarrow> True | Some sy \<Rightarrow>
      case year other of None \<Rightarrow> False | Some oy \<Rightarrow>
      if sy < oy then True else
      case month self of None \<Rightarrow> True | Some sm \<Rightarrow>
      case month other of None \<Rightarrow> False | Some om \<Rightarrow>
      if sm < om then True else
      case day self of None \<Rightarrow> True | Some sd \<Rightarrow>
      case day other of None \<Rightarrow> False | Some od \<Rightarrow>
      if sd < od then True else False)"

text \<open>\<open>Date.__eq__\<close>: equality of the three components.\<close>

definition Date_eq :: "Date \<Rightarrow> Date \<Rightarrow> bool" where
  "Date_eq self other = ((year self, month self, day self) = (year other, month other, day other))"

text \<open>
  The order the specification names for fully specified dates: the lexicographic
  order of the triples (year, month, day). It is written from the specification's
  words, to be compared with \<^const>\<open>Date_lt\<close>.
\<close>

definition spec_lex_lt :: "int \<times> int \<times> int \<Rightarrow> int \<times> int \<times> int \<Rightarrow> bool" where
  "spec_lex_lt a b =
     (case a of (y1, m1, d1) \<Rightarrow> case b of (y2, m2, d2) \<Rightarrow>
        y1 < y2 \<or> (y1 = y2 \<and> (m1 < m2 \<or> (m1 = m2 \<and> d1 < d2))))"

definition mk_date :: "int option \<Rightarrow> int option \<Rightarrow> int option \<Rightarrow> Date" where
  "mk_date y m d = \<lparr>year = y, month = m, day = d\<rparr>"

section \<open>Errors\<close>

text \<open>
  Every exception that ends a command is a value. \<open>TransportError\<close> is a failure of
  \<open>requests.post\<close> itself, \<open>JSONDecodeError\<close> a body that \<open>.json()\<close> cannot decode,
  \<open>DecodeError\<close> a failed subscript or a pydantic validation error, \<open>HTTPError\<close>
  the exception of \<open>raise_for_status\<close>, with the status code, and \<open>RecursionError\<close>
  the exception of the interpreter when calls are nested deeper than its recursion
  limit allows.
\<close>

datatype error = TransportError | JSONDecodeError | DecodeError | HTTPError int | RecursionError

section \<open>Fetching and filtering a season: get_anime\<close>

text \<open>
  The \<open>for\<close> loop of \<open>get_anime\<close> over the media of one page. The first argument is
  the list \<open>medias\<close> built so far; each \<open>continue\<close> leaves it unchanged and
  \<open>medias.append(media)\<close> adds at its end. \<open>media.format in (...)\<close> compares the
  optional format with four strings, so a missing format is not in the tuple.
\<close>

fun filter_loop :: "Media list \<Rightarrow> Media list \<Rightarrow> Media list" where
  "filter_loop medias [] = medias"
| "filter_loop medias (m # rest) =
     (if format m \<in> set [Some ''MOVIE'', Some ''OVA'', Some ''SPECIAL'', Some ''MUSIC'']
        then filter_loop medias rest
      else if isAdult m
        then filter_loop medias rest
      else if list_ex (\<lambda>rel. relationType rel \<in> set [''PREQUEL'', ''SEQUEL'']) (edges (relations m))
        then filter_loop medias rest
      else filter_loop (medias @ [m]) rest)"

text \<open>
  The remote service is a parameter: \<open>fetch season year page\<close> is the outcome of
  \<open>requests.post\<close> with these variables followed by
  \<open>AnimePage.model_validate(resp.json()["data"]["Page"])\<close>, an error or the decoded
  page. One run of \<open>get_anime\<close> asks for each page number once, so a function of
  the page number describes any sequence of responses.
\<close>

type_synonym fetch = "MediaSeason \<Rightarrow> int \<Rightarrow> int \<Rightarrow> error + AnimePage"

text \<open>
  \<open>get_anime\<close> calls itself for as long as the pages report \<open>hasNextPage\<close>, one
  activation inside the other, and each activation stays on the interpreter's
  stack until the later ones have returned. The interpreter raises
  \<open>RecursionError\<close> when the stack would grow beyond its recursion limit; the
  script does not change the limit, which is 1000 frames by default. The first
  argument is the number of nested activations of \<open>get_anime\<close> that fit under the
  limit: with the frames of the callers and of the library calls of each
  activation it is below 1000. An activation beyond it ends with
  \<open>RecursionError\<close>, which no activation catches. \<open>Inl e\<close> is a run ended by
  the exception \<open>e\<close>, \<open>Inr medias\<close> a run that returns \<open>medias\<close>.
\<close>

fun get_anime :: "nat \<Rightarrow> fetch \<Rightarrow> MediaSeason \<Rightarrow> int \<Rightarrow> int \<Rightarrow> error + Media list" where
  "get_anime 0 fetch_page season yr page = Inl RecursionError"
| "get_anime (Suc depth) fetch_page season yr page =
     (case fetch_page season yr page of
        Inl e \<Rightarrow> Inl e
      | Inr page_resp \<Rightarrow>
          (let medias = filter_loop [] (media page_resp) in
           if hasNextPage (pageInfo page_resp)
           then (case get_anime depth fetch_page season yr (page + 1) of
                   Inl e \<Rightarrow> Inl e
                 | Inr nxt \<Rightarrow> Inr (medias @ nxt))
           else Inr medias))"

text \<open>
  \<open>serves_pages fetch_page season yr page pgs\<close>: from page number \<open>page\<close> on, the
  service answers with the pages \<open>pgs\<close>, one after the other; all of them report
  \<open>hasNextPage\<close> except the last one, which does not.
\<close>

fun serves_pages :: "fetch \<Rightarrow> MediaSeason \<Rightarrow> int \<Rightarrow> int \<Rightarrow> AnimePage list \<Rightarrow> bool" where
  "serves_pages fetch_page season yr page [] = False"
| "serves_pages fetch_page season yr page [pg] =
     (fetch_page season yr page = Inr pg \<and> \<not> hasNextPage (pageInfo pg))"
| "serves_pages fetch_page season yr page (pg # pgs) =
     (fetch_page season yr page = Inr pg \<and> hasNextPage (pageInfo pg)
      \<and> serves_pages fetch_page season yr (page + 1) pgs)"

section \<open>The user's list: get_userlist\<close>

text \<open>
  A response of \<open>requests.post\<close>: its status code and what \<open>.json()\<close> gives, \<open>None\<close>
  when the body is not JSON (\<open>.json()\<close> raises). The type \<open>'j\<close> is the decoded JSON.
\<close>

record 'j Response =
  status_code :: int
  json :: "'j option"

text \<open>
  \<open>Response.raise_for_status\<close> of the requests library raises \<open>HTTPError\<close> for the
  client errors 400 to 499 and the server errors 500 to 599, and returns for every
  other status code.
\<close>

definition raise_for_status :: "int \<Rightarrow> error option" where
  "raise_for_status sc = (if 400 \<le> sc \<and> sc < 600 then Some (HTTPError sc) else None)"

text \<open>
  \<open>get_userlist\<close>. The parameter \<open>post\<close> is the outcome of \<open>requests.post\<close> for the
  user's name; \<open>model_validate body\<close> stands for
  \<open>MediaListCollection.model_validate(body['data']['MediaListCollection'])\<close>. The
  result is the list of values printed and either the exception raised or the
  entries returned. \<open>toolz.concat\<close> of the lists' entries is \<^const>\<open>concat\<close>.
\<close>

definition get_userlist ::
  "(string \<Rightarrow> error + 'j Response) \<Rightarrow> ('j \<Rightarrow> error + MediaListCollection) \<Rightarrow> string
   \<Rightarrow> 'j list \<times> (error + MediaEntry list)" where
  "get_userlist post model_validate username =
     (case post username of
        Inl e \<Rightarrow> ([], Inl e)
      | Inr req \<Rightarrow>
          (let checked =
             (if status_code req \<noteq> 200
              then (case json req of
                      None \<Rightarrow> ([], Some JSONDecodeError)
                    | Some body \<Rightarrow> ([body], raise_for_status (status_code req)))
              else ([], None))
           in case snd checked of
                Some e \<Rightarrow> (fst checked, Inl e)
              | None \<Rightarrow>
                  (case json req of
                     None \<Rightarrow> (fst checked, Inl JSONDecodeError)
                   | Some body \<Rightarrow>
                       (case model_validate body of
                          Inl e \<Rightarrow> (fst checked, Inl e)
                        | Inr user_list \<Rightarrow>
                            (fst checked, Inr (concat (map entries (lists user_list))))))))"

section \<open>Season inference: get_season\<close>

text \<open>
  \<open>datetime.datetime.now()\<close> is read once; its year and month are the first two
  arguments.
\<close>

definition get_season :: "int \<Rightarrow> int \<Rightarrow> int option \<Rightarrow> MediaSeason option \<Rightarrow> int \<times> MediaSeason" where
  "get_season date_year date_month yr season =
     (let yr' = (case yr of
                   None \<Rightarrow> if date_month < 12 then date_year else date_year + 1
                 | Some y \<Rightarrow> y);
          season' = (case season of
                   None \<Rightarrow>
                     if date_month < 2 \<or> date_month = 12 then WINTER
                     else if date_month < 5 then SPRING
                     else if date_month < 8 then SUMMER
                     else FALL
                 | Some s \<Rightarrow> s)
      in (yr', season'))"

section \<open>The season summary: md_summary\<close>

text \<open>\<open>str(n)\<close> for an integer: decimal digits, with a minus sign when negative.\<close>

fun str_nat :: "nat \<Rightarrow> string" where
  "str_nat n =
     (if n < 10 then [''0123456789'' ! n]
      else str_nat (n div 10) @ [''0123456789'' ! (n mod 10)])"

declare str_nat.simps [simp del]

definition str_int :: "int \<Rightarrow> string" where
  "str_int i = (if i < 0 then CHR ''-'' # str_nat (nat (- i)) else str_nat (nat i))"

text \<open>
  \<open>s.replace(old, new)\<close> where \<open>old\<close> and \<open>new\<close> are one character each. On the
  UTF-8 bytes this is the replacement on code points, since the bytes of a
  character outside ASCII are all above 127.
\<close>

definition str_replace :: "char \<Rightarrow> char \<Rightarrow> string \<Rightarrow> string" where
  "str_replace old new s = map (\<lambda>c. if c = old then new else c) s"

text \<open>
  The string given to \<open>print\<close> for the head of a group:
  \<open>f"\n### {format or 'Unknown'}\n".replace('_', ' ')\<close>. The operand of \<open>or\<close> is
  false when the format is \<open>None\<close> and when it is the empty string.
\<close>

definition format_header :: "string option \<Rightarrow> string" where
  "format_header fmt =
     str_replace CHR ''_'' CHR '' ''
       (''\<newline>### ''
        @ (case fmt of None \<Rightarrow> ''Unknown'' | Some f \<Rightarrow> if f = [] then ''Unknown'' else f)
        @ ''\<newline>'')"

text \<open>The string given to \<open>print\<close> for one media of a group.\<close>

definition checklist_line :: "Media \<Rightarrow> string" where
  "checklist_line m =
     ''- [ ] [{AL}](https://anilist.co/anime/'' @ str_int (id_Media m) @ '') ''
     @ userPreferred (title m)"

text \<open>
  \<open>toolz.groupby(key, seq)\<close>: a dictionary from each key to the items with that
  key, in the order of the sequence; the keys are in the order of their first
  item, which is the order \<open>items()\<close> goes through them.
\<close>

fun groupby_add :: "'k \<Rightarrow> 'v \<Rightarrow> ('k \<times> 'v list) list \<Rightarrow> ('k \<times> 'v list) list" where
  "groupby_add k v [] = [(k, [v])]"
| "groupby_add k v ((k', vs) # d) =
     (if k = k' then (k', vs @ [v]) # d else (k', vs) # groupby_add k v d)"

definition groupby :: "('v \<Rightarrow> 'k) \<Rightarrow> 'v list \<Rightarrow> ('k \<times> 'v list) list" where
  "groupby key seq = foldl (\<lambda>d x. groupby_add (key x) x d) [] seq"

text \<open>
  The loop of \<open>md_summary\<close> over the groups; the result is the list of the strings
  printed, one for each call of \<open>print\<close>. The parameter \<open>sorted_by_startDate\<close> is
  \<open>sorted(format_medias, key=attrgetter('startDate'))\<close>: the order it returns
  depends on the sorting algorithm of the interpreter, because the comparison of
  dates is not an order.
\<close>

fun md_summary_loop ::
  "(Media list \<Rightarrow> Media list) \<Rightarrow> (string option \<times> Media list) list \<Rightarrow> string list" where
  "md_summary_loop sorted_by_startDate [] = []"
| "md_summary_loop sorted_by_startDate ((fmt, format_medias) # rest) =
     format_header fmt # map checklist_line (sorted_by_startDate format_medias)
     @ md_summary_loop sorted_by_startDate rest"

text \<open>The display label of a season; the label of summer is in UTF-8.\<close>

fun MediaSeason_value :: "MediaSeason \<Rightarrow> string" where
  "MediaSeason_value WINTER = ''hivers''"
| "MediaSeason_value SPRING = ''printemps''"
| "MediaSeason_value SUMMER = [CHR 0xC3, CHR 0xA9, CHR ''t'', CHR 0xC3, CHR 0xA9]"
| "MediaSeason_value FALL = ''automne''"

text \<open>
  \<open>md_summary\<close> once the season and year are resolved and the media fetched: the
  title line, then the groups.
\<close>

definition md_summary ::
  "(Media list \<Rightarrow> Media list) \<Rightarrow> MediaSeason \<Rightarrow> int \<Rightarrow> Media list \<Rightarrow> string list" where
  "md_summary sorted_by_startDate season yr medias =
     (''# Saisonniers '' @ MediaSeason_value season @ '' '' @ str_int yr)
     # md_summary_loop sorted_by_startDate (groupby format medias)"

section \<open>The watched and remaining split: user_progress\<close>

text \<open>
  The loop of \<open>user_progress\<close> over the season's media, with the two lists built so
  far.
\<close>

fun user_progress_loop ::
  "int set \<Rightarrow> Media list \<Rightarrow> Media list \<Rightarrow> Media list \<Rightarrow> Media list \<times> Media list" where
  "user_progress_loop user_media_ids watched remaining [] = (watched, remaining)"
| "user_progress_loop user_media_ids watched remaining (m # medias) =
     (if id_Media m \<in> user_media_ids
      then user_progress_loop user_media_ids (watched @ [m]) remaining medias
      else user_progress_loop user_media_ids watched (remaining @ [m]) medias)"

text \<open>
  \<open>user_progress\<close> from the fetched media and the user's entries to the lists
  \<open>watched\<close> and \<open>remaining\<close>, which the command then prints.
\<close>

definition user_progress :: "Media list \<Rightarrow> MediaEntry list \<Rightarrow> Media list \<times> Media list" where
  "user_progress medias user_list =
     (let user_media_ids = set (map mediaId user_list)
      in user_progress_loop user_media_ids [] [] medias)"

section \<open>Concrete values\<close>

text \<open>Records with the fields that matter filled in, for the concrete instances below.\<close>

definition mk_media :: "int \<Rightarrow> string \<Rightarrow> string option \<Rightarrow> bool \<Rightarrow> string list \<Rightarrow> Media" where
  "mk_media i ttl fmt adult rels =
     \<lparr>id_Media = i, startDate = mk_date None None None, isAdult = adult, episodes = None,
      isLicensed = False, genres = [], tags = [],
      title = \<lparr>romaji = ttl, english = None, native = ttl, userPreferred = ttl\<rparr>,
      relations = \<lparr>edges = map (\<lambda>t. \<lparr>relationType = t\<rparr>) rels\<rparr>,
      format = fmt\<rparr>"

definition mk_entry :: "int \<Rightarrow> int \<Rightarrow> MediaEntry" where
  "mk_entry i mid = \<lparr>id_MediaEntry = i, mediaId = mid, status = ''CURRENT'', progress = 0, score = 0\<rparr>"

definition mk_page :: "bool \<Rightarrow> Media list \<Rightarrow> AnimePage" where
  "mk_page nxt ms = \<lparr>pageInfo = \<lparr>hasNextPage = nxt\<rparr>, media = ms\<rparr>"

definition example_page1 :: AnimePage where
  "example_page1 = mk_page True
     [mk_media 1 ''A'' (Some ''TV'') False [''ADAPTATION''],
      mk_media 2 ''B'' (Some ''MOVIE'') False [],
      mk_media 3 ''C'' None False []]"

definition example_page2 :: AnimePage where
  "example_page2 = mk_page False
     [mk_media 4 ''D'' (Some ''TV'') False [''SIDE_STORY'', ''SEQUEL''],
      mk_media 5 ''E'' (Some ''TV_SHORT'') False [],
      mk_media 6 ''F'' (Some ''ONA'') True []]"

text \<open>
  A service with 1001 pages without media: the pages 1 to 1000 report a next page,
  page 1001 does not.
\<close>

definition example_long_fetch :: fetch where
  "example_long_fetch season yr page = Inr (mk_page (page < 1001) [])"

definition example_long_pages :: "AnimePage list" where
  "example_long_pages = replicate 1000 (mk_page True []) @ [mk_page False []]"

definition example_fetch :: fetch where
  "example_fetch season yr page =
     (if page = 1 then Inr example_page1
      else if page = 2 then Inr example_page2
      else Inl DecodeError)"

definition example_multiple_choices :: "string \<Rightarrow> error + unit Response" where
  "example_multiple_choices username = Inr \<lparr>status_code = 300, json = Some ()\<rparr>"

definition example_not_found :: "string \<Rightarrow> error + unit Response" where
  "example_not_found username = Inr \<lparr>status_code = 404, json = Some ()\<rparr>"

definition example_validate :: "unit \<Rightarrow> error + MediaListCollection" where
  "example_validate body = Inr \<lparr>lists = [\<lparr>entries = [mk_entry 10 2]\<rparr>]\<rparr>"

section \<open>Properties of the per-page filter and of the pagination\<close>

lemma filter_loop_append:
  "filter_loop acc page =
     acc @ filter (\<lambda>m. \<not> (format m \<in> {Some ''MOVIE'', Some ''OVA'', Some ''SPECIAL'', Some ''MUSIC''}
        \<or> isAdult m
        \<or> (\<exists>rel \<in> set (edges (relations m)). relationType rel \<in> {''PREQUEL'', ''SEQUEL''}))) page"
  by (induction page arbitrary: acc) (auto simp: list_ex_iff)

text \<open>
  C3. The filter of one page removes exactly the media whose format is MOVIE, OVA,
  SPECIAL or MUSIC, the adult ones, and the ones with a relation of type PREQUEL
  or SEQUEL; the others stay, in the order of the page.
\<close>

theorem filter_loop_exact:
  "filter_loop [] page =
     filter (\<lambda>m. \<not> (format m \<in> {Some ''MOVIE'', Some ''OVA'', Some ''SPECIAL'', Some ''MUSIC''}
        \<or> isAdult m
        \<or> (\<exists>rel \<in> set (edges (relations m)). relationType rel \<in> {''PREQUEL'', ''SEQUEL''}))) page"
  using filter_loop_append [of "[]" page] by simp

theorem filter_loop_exact_witness:
  "filter_loop []
     [mk_media 1 ''A'' (Some ''TV'') False [''ADAPTATION''],
      mk_media 2 ''B'' (Some ''MOVIE'') False [],
      mk_media 3 ''C'' None False [],
      mk_media 4 ''D'' (Some ''TV'') False [''SIDE_STORY'', ''SEQUEL''],
      mk_media 5 ''E'' (Some ''TV_SHORT'') False [],
      mk_media 6 ''F'' (Some ''ONA'') True [],
      mk_media 7 ''G'' (Some ''MUSIC'') False [''PREQUEL'']]
   = [mk_media 1 ''A'' (Some ''TV'') False [''ADAPTATION''],
      mk_media 3 ''C'' None False [],
      mk_media 5 ''E'' (Some ''TV_SHORT'') False []]"
  unfolding filter_loop_exact by (simp add: mk_media_def)

lemma get_anime_serves_pages:
  "serves_pages fetch_page season yr page pgs \<Longrightarrow> length pgs \<le> depth \<Longrightarrow>
   get_anime depth fetch_page season yr page =
     Inr (concat (map (\<lambda>pg. filter_loop [] (media pg)) pgs))"
proof (induction fetch_page season yr page pgs arbitrary: depth rule: serves_pages.induct)
  case (1 fetch_page season yr page)
  then show ?case by simp
next
  case (2 fetch_page season yr page pg)
  then obtain d where "depth = Suc d" by (cases depth) auto
  with 2 show ?case by simp
next
  case (3 fetch_page season yr page pg v va)
  from 3(3) obtain d where d: "depth = Suc d" by (cases depth) auto
  with 3(3) have len: "length (v # va) \<le> d" by simp
  from 3(2) have "serves_pages fetch_page season yr (page + 1) (v # va)" by simp
  from this len have "get_anime d fetch_page season yr (page + 1) =
      Inr (concat (map (\<lambda>pg. filter_loop [] (media pg)) (v # va)))"
    by (rule 3(1))
  with 3(2) d show ?case by simp
qed

lemma get_anime_too_deep:
  "serves_pages fetch_page season yr page pgs \<Longrightarrow> depth < length pgs \<Longrightarrow>
   get_anime depth fetch_page season yr page = Inl RecursionError"
proof (induction fetch_page season yr page pgs arbitrary: depth rule: serves_pages.induct)
  case (1 fetch_page season yr page)
  then show ?case by simp
next
  case (2 fetch_page season yr page pg)
  then show ?case by simp
next
  case (3 fetch_page season yr page pg v va)
  show ?case
  proof (cases depth)
    case 0
    then show ?thesis by simp
  next
    case (Suc d)
    with 3(3) have len: "d < length (v # va)" by simp
    from 3(2) have "serves_pages fetch_page season yr (page + 1) (v # va)" by simp
    from this len have "get_anime d fetch_page season yr (page + 1) = Inl RecursionError"
      by (rule 3(1))
    with 3(2) Suc show ?thesis by simp
  qed
qed



lemma serves_pages_replicate:
  "(\<And>k. k < n \<Longrightarrow> fetch_page season yr (page + int k) = Inr pg_more) \<Longrightarrow>
   hasNextPage (pageInfo pg_more) \<Longrightarrow>
   fetch_page season yr (page + int n) = Inr pg_last \<Longrightarrow>
   \<not> hasNextPage (pageInfo pg_last) \<Longrightarrow>
   serves_pages fetch_page season yr page (replicate n pg_more @ [pg_last])"
proof (induction n arbitrary: page)
  case 0
  then show ?case by simp
next
  case (Suc n)
  have "serves_pages fetch_page season yr (page + 1) (replicate n pg_more @ [pg_last])"
  proof (rule Suc.IH)
    fix k
    assume "k < n"
    then have "Suc k < Suc n" by simp
    from Suc.prems(1) [OF this]
    show "fetch_page season yr (page + 1 + int k) = Inr pg_more"
      by (simp add: ac_simps)
  next
    from Suc.prems(3) show "fetch_page season yr (page + 1 + int n) = Inr pg_last"
      by (simp add: ac_simps)
  qed (use Suc.prems in auto)
  moreover from Suc.prems(1) [of 0] have "fetch_page season yr page = Inr pg_more" by simp
  ultimately show ?case
    using Suc.prems(2) by (cases "replicate n pg_more @ [pg_last]") auto
qed

lemma example_long_serves:
  "serves_pages example_long_fetch season yr 1 example_long_pages"
  unfolding example_long_pages_def
  by (rule serves_pages_replicate) (simp_all add: example_long_fetch_def mk_page_def)

lemma length_example_long_pages: "length example_long_pages = 1001"
  by (simp add: example_long_pages_def)

text \<open>
  C5, as stated, fails: the service answers with 1001 pages, of which the last
  reports no next page, and \<open>get_anime\<close> does not return the concatenation of the
  filtered pages: with 1000 nested activations allowed, more than the default
  recursion limit leaves, the run ends with \<open>RecursionError\<close>.
\<close>

theorem get_anime_concat_long_sequence:
  "serves_pages example_long_fetch WINTER 2024 1 example_long_pages
   \<and> length example_long_pages = 1001
   \<and> get_anime 1000 example_long_fetch WINTER 2024 1 = Inl RecursionError"
proof -
  have s: "serves_pages example_long_fetch WINTER 2024 1 example_long_pages"
    by (rule example_long_serves)
  have "get_anime 1000 example_long_fetch WINTER 2024 1 = Inl RecursionError"
    by (rule get_anime_too_deep [OF s]) (simp add: length_example_long_pages)
  with s show ?thesis by (simp add: length_example_long_pages)
qed

text \<open>
  C5, amended. When the service answers with the pages \<open>pgs\<close> and their number
  is within the nested activations the recursion limit allows, \<open>get_anime\<close>
  returns the filtered media of each page, concatenated in the order of the pages.
  In particular, a first page with two media left by the filter and a last page
  with one give these three media, first page first. When the pages are more than
  that, the run ends with \<open>RecursionError\<close>.
\<close>

theorem get_anime_concat:
  "(serves_pages fetch_page season yr page pgs \<and> length pgs \<le> depth \<longrightarrow>
      get_anime depth fetch_page season yr page =
        Inr (concat (map (\<lambda>pg. filter_loop [] (media pg)) pgs)))
   \<and> (serves_pages fetch_page season yr page [pg1, pg2] \<and> 2 \<le> depth
        \<and> filter_loop [] (media pg1) = [a, b] \<and> filter_loop [] (media pg2) = [c] \<longrightarrow>
      get_anime depth fetch_page season yr page = Inr [a, b, c])
   \<and> (serves_pages fetch_page season yr page pgs \<and> depth < length pgs \<longrightarrow>
      get_anime depth fetch_page season yr page = Inl RecursionError)"
proof (intro conjI impI)
  assume "serves_pages fetch_page season yr page pgs \<and> length pgs \<le> depth"
  then show "get_anime depth fetch_page season yr page =
      Inr (concat (map (\<lambda>pg. filter_loop [] (media pg)) pgs))"
    by (simp add: get_anime_serves_pages)
next
  assume h: "serves_pages fetch_page season yr page [pg1, pg2] \<and> 2 \<le> depth
      \<and> filter_loop [] (media pg1) = [a, b] \<and> filter_loop [] (media pg2) = [c]"
  then have "serves_pages fetch_page season yr page [pg1, pg2]"
    and "length [pg1, pg2] \<le> depth"
    by simp_all
  from get_anime_serves_pages [OF this] h
  show "get_anime depth fetch_page season yr page = Inr [a, b, c]" by simp
next
  assume "serves_pages fetch_page season yr page pgs \<and> depth < length pgs"
  then show "get_anime depth fetch_page season yr page = Inl RecursionError"
    by (blast intro: get_anime_too_deep)
qed

theorem get_anime_concat_witness:
  "serves_pages example_fetch WINTER 2024 1 [example_page1, example_page2]
   \<and> filter_loop [] (media example_page1)
       = [mk_media 1 ''A'' (Some ''TV'') False [''ADAPTATION''], mk_media 3 ''C'' None False []]
   \<and> filter_loop [] (media example_page2) = [mk_media 5 ''E'' (Some ''TV_SHORT'') False []]
   \<and> get_anime 900 example_fetch WINTER 2024 1 =
       Inr [mk_media 1 ''A'' (Some ''TV'') False [''ADAPTATION''],
            mk_media 3 ''C'' None False [],
            mk_media 5 ''E'' (Some ''TV_SHORT'') False []]
   \<and> get_anime 1 example_fetch WINTER 2024 1 = Inl RecursionError"
proof -
  have s: "serves_pages example_fetch WINTER 2024 1 [example_page1, example_page2]"
    by (simp add: example_fetch_def example_page1_def example_page2_def mk_page_def)
  have f1: "filter_loop [] (media example_page1)
      = [mk_media 1 ''A'' (Some ''TV'') False [''ADAPTATION''], mk_media 3 ''C'' None False []]"
    by (simp add: example_page1_def mk_page_def mk_media_def)
  have f2: "filter_loop [] (media example_page2) = [mk_media 5 ''E'' (Some ''TV_SHORT'') False []]"
    by (simp add: example_page2_def mk_page_def mk_media_def)
  have d: "(2::nat) \<le> 900" by simp
  have l: "(1::nat) < length [example_page1, example_page2]" by simp
  from get_anime_concat [of example_fetch WINTER 2024 1 "[example_page1, example_page2]" 900
      example_page1 example_page2
      "mk_media 1 ''A'' (Some ''TV'') False [''ADAPTATION'']" "mk_media 3 ''C'' None False []"
      "mk_media 5 ''E'' (Some ''TV_SHORT'') False []"]
    get_anime_concat [of example_fetch WINTER 2024 1 "[example_page1, example_page2]" 1]
    s f1 f2 d l
  show ?thesis by blast
qed




section \<open>Properties of get_userlist\<close>

text \<open>
  C2, as stated, fails: a response with status 300 is outside the 2xx range and
  its body is printed, but \<open>raise_for_status\<close> does not raise for it, and the
  entries decoded from the body are returned.
\<close>

theorem get_userlist_status_300:
  "example_multiple_choices ''someone'' = Inr \<lparr>status_code = 300, json = Some ()\<rparr>
   \<and> \<not> (200 \<le> (300::int) \<and> (300::int) < 300)
   \<and> get_userlist example_multiple_choices example_validate ''someone''
       = ([()], Inr [mk_entry 10 2])"
  by (simp add: get_userlist_def example_multiple_choices_def example_validate_def
      raise_for_status_def)

text \<open>
  C2, amended. When the response carries a status from 400 to 599, \<open>get_userlist\<close>
  returns no result: if the body decodes as JSON, it is printed and the HTTP error
  is raised; otherwise decoding raises and nothing is printed.
\<close>

theorem get_userlist_error_status:
  assumes "post username = Inr req" and "400 \<le> status_code req" and "status_code req < 600"
  shows "get_userlist post model_validate username =
           (case json req of
              Some body \<Rightarrow> ([body], Inl (HTTPError (status_code req)))
            | None \<Rightarrow> ([], Inl JSONDecodeError))"
  using assms by (simp add: get_userlist_def raise_for_status_def split: option.splits)

theorem get_userlist_error_status_witness:
  "example_not_found ''someone'' = Inr \<lparr>status_code = 404, json = Some ()\<rparr>
   \<and> get_userlist example_not_found example_validate ''someone'' = ([()], Inl (HTTPError 404))"
proof -
  have p: "example_not_found ''someone'' = Inr \<lparr>status_code = 404, json = Some ()\<rparr>"
    by (simp add: example_not_found_def)
  from get_userlist_error_status
    [of example_not_found "''someone''" "\<lparr>status_code = 404, json = Some ()\<rparr>" example_validate] p
  show ?thesis by simp
qed

section \<open>Properties of get_season\<close>

text \<open>
  C4. Without a year and a season, December gives winter of the next year, January
  winter of the current year, February to April spring, May to July summer and
  August to November fall; a year or a season that is supplied is returned as it
  is, and the other component is inferred as if nothing had been supplied.
\<close>

theorem get_season_inference:
  "(m = 12 \<longrightarrow> get_season y m None None = (y + 1, WINTER))
   \<and> (m = 1 \<longrightarrow> get_season y m None None = (y, WINTER))
   \<and> (2 \<le> m \<and> m \<le> 4 \<longrightarrow> get_season y m None None = (y, SPRING))
   \<and> (5 \<le> m \<and> m \<le> 7 \<longrightarrow> get_season y m None None = (y, SUMMER))
   \<and> (8 \<le> m \<and> m \<le> 11 \<longrightarrow> get_season y m None None = (y, FALL))
   \<and> get_season y m (Some y') None = (y', snd (get_season y m None None))
   \<and> get_season y m None (Some s') = (fst (get_season y m None None), s')
   \<and> get_season y m (Some y') (Some s') = (y', s')"
  by (simp add: get_season_def)

theorem get_season_inference_witness:
  "get_season 2024 12 None None = (2025, WINTER)
   \<and> get_season 2024 1 None None = (2024, WINTER)
   \<and> get_season 2024 4 None None = (2024, SPRING)
   \<and> get_season 2024 7 None None = (2024, SUMMER)
   \<and> get_season 2024 10 None None = (2024, FALL)"
  using get_season_inference [of 12 2024] get_season_inference [of 1 2024]
    get_season_inference [of 4 2024] get_season_inference [of 7 2024]
    get_season_inference [of 10 2024]
  by simp

section \<open>Properties of md_summary\<close>

lemma str_replace_append:
  "str_replace old new (s @ t) = str_replace old new s @ str_replace old new t"
  by (simp add: str_replace_def)

text \<open>
  C10, as stated, fails for a group whose format is the empty string (and has no
  meaning for the group of the media without a format): the head printed is
  Unknown, not the format with its underscores replaced.
\<close>

theorem format_header_empty_format:
  "format_header (Some '''') = ''\<newline>### Unknown\<newline>''
   \<and> format_header (Some '''') \<noteq> ''\<newline>### '' @ str_replace CHR ''_'' CHR '' '' '''' @ ''\<newline>''
   \<and> format_header None = ''\<newline>### Unknown\<newline>''"
  by (simp add: format_header_def str_replace_def)

text \<open>
  C10, amended. For a group whose format is a string that is not empty, the head
  printed is the format with every underscore replaced by a space, between the
  prefix and the line break of the template; a group without a format or with the
  empty format is headed Unknown. The line of a media is its identifier and its
  preferred title in the template, with no replacement; the loop prints the head
  of a group and then the lines of its media.
\<close>

theorem md_summary_header_and_lines:
  "(f \<noteq> [] \<longrightarrow>
      format_header (Some f) =
        ''\<newline>### '' @ map (\<lambda>c. if c = CHR ''_'' then CHR '' '' else c) f @ ''\<newline>'')
   \<and> format_header None = ''\<newline>### Unknown\<newline>''
   \<and> format_header (Some []) = ''\<newline>### Unknown\<newline>''
   \<and> checklist_line m =
        ''- [ ] [{AL}](https://anilist.co/anime/'' @ str_int (id_Media m) @ '') ''
        @ userPreferred (title m)
   \<and> md_summary_loop srt ((fmt, ms) # rest) =
        format_header fmt # map checklist_line (srt ms) @ md_summary_loop srt rest"
  by (simp add: format_header_def checklist_line_def str_replace_append)
    (simp add: str_replace_def)

theorem md_summary_header_and_lines_witness:
  "format_header (Some ''TV_SHORT'') = ''\<newline>### TV SHORT\<newline>''
   \<and> checklist_line (mk_media 42 ''a_b'' (Some ''TV_SHORT'') False [])
       = ''- [ ] [{AL}](https://anilist.co/anime/42) a_b''
   \<and> md_summary id FALL 2024 [mk_media 42 ''a_b'' (Some ''TV_SHORT'') False []]
       = [''# Saisonniers automne 2024'',
          ''\<newline>### TV SHORT\<newline>'',
          ''- [ ] [{AL}](https://anilist.co/anime/42) a_b'']"
  using md_summary_header_and_lines
    [of "''TV_SHORT''" "mk_media 42 ''a_b'' (Some ''TV_SHORT'') False []" id
        "Some ''TV_SHORT''" "[mk_media 42 ''a_b'' (Some ''TV_SHORT'') False []]" "[]"]
  by (simp add: md_summary_def groupby_def mk_media_def str_int_def str_nat.simps)

section \<open>Properties of user_progress\<close>

lemma user_progress_loop_filter:
  "user_progress_loop ids watched remaining medias =
     (watched @ filter (\<lambda>m. id_Media m \<in> ids) medias,
      remaining @ filter (\<lambda>m. id_Media m \<notin> ids) medias)"
  by (induction medias arbitrary: watched remaining) simp_all

text \<open>
  C7. \<open>watched\<close> is the media whose identifier is among the \<open>mediaId\<close> of the user's
  entries and \<open>remaining\<close> the media whose identifier is not, both in the order of
  the season's list; together they hold every media once, and no media is in both.
\<close>

theorem user_progress_partition:
  "user_progress medias user_list =
     (filter (\<lambda>m. id_Media m \<in> set (map mediaId user_list)) medias,
      filter (\<lambda>m. id_Media m \<notin> set (map mediaId user_list)) medias)
   \<and> mset (fst (user_progress medias user_list)) + mset (snd (user_progress medias user_list))
       = mset medias
   \<and> set (fst (user_progress medias user_list)) \<inter> set (snd (user_progress medias user_list)) = {}"
proof -
  have eq: "user_progress medias user_list =
     (filter (\<lambda>m. id_Media m \<in> set (map mediaId user_list)) medias,
      filter (\<lambda>m. id_Media m \<notin> set (map mediaId user_list)) medias)"
    by (simp add: user_progress_def user_progress_loop_filter)
  have "mset (fst (user_progress medias user_list)) + mset (snd (user_progress medias user_list))
       = mset medias"
    unfolding eq by (induction medias) simp_all
  moreover have "set (fst (user_progress medias user_list))
      \<inter> set (snd (user_progress medias user_list)) = {}"
    unfolding eq by auto
  ultimately show ?thesis using eq by blast
qed

theorem user_progress_partition_witness:
  "user_progress
     [mk_media 1 ''A'' None False [], mk_media 2 ''B'' None False [], mk_media 3 ''C'' None False []]
     [mk_entry 10 2]
   = ([mk_media 2 ''B'' None False []],
      [mk_media 1 ''A'' None False [], mk_media 3 ''C'' None False []])"
  using user_progress_partition
    [of "[mk_media 1 ''A'' None False [], mk_media 2 ''B'' None False [], mk_media 3 ''C'' None False []]"
        "[mk_entry 10 2]"]
  by (simp add: mk_media_def mk_entry_def)

section \<open>Properties of the date comparison\<close>

text \<open>
  C1. On fully specified dates the comparison is meant to be the lexicographic
  order of (year, month, day). The code does not return False when the year of the
  left date is greater: it goes on to the months. At 2021-01-01 against 2020-02-01
  the comparison answers True, while the triple (2021, 1, 1) is lexicographically
  greater than (2020, 2, 1).
\<close>

theorem Date_lt_later_year_earlier_month:
  "Date_lt (mk_date (Some 2021) (Some 1) (Some 1)) (mk_date (Some 2020) (Some 2) (Some 1))
   \<and> \<not> spec_lex_lt (2021, 1, 1) (2020, 2, 1)"
  by (simp add: Date_lt_def mk_date_def spec_lex_lt_def)

text \<open>
  C8. A missing component sorts first: a date without a year is below every date
  with a year, and the converse comparison is False; with equal years, a date
  without a month is below a date with one; with equal years and months, a date
  without a day is below a date with one.
\<close>

theorem Date_lt_missing_first:
  "(year A = None \<and> year B \<noteq> None \<longrightarrow> Date_lt A B \<and> \<not> Date_lt B A)
   \<and> (year A \<noteq> None \<and> year A = year B \<and> month A = None \<and> month B \<noteq> None \<longrightarrow> Date_lt A B)
   \<and> (year A \<noteq> None \<and> year A = year B \<and> month A \<noteq> None \<and> month A = month B
        \<and> day A = None \<and> day B \<noteq> None \<longrightarrow> Date_lt A B)"
  by (auto simp: Date_lt_def split: option.splits)

theorem Date_lt_missing_first_witness:
  "Date_lt (mk_date None (Some 3) (Some 4)) (mk_date (Some 2020) None None)
   \<and> \<not> Date_lt (mk_date (Some 2020) None None) (mk_date None (Some 3) (Some 4))
   \<and> Date_lt (mk_date (Some 2020) None (Some 9)) (mk_date (Some 2020) (Some 1) None)
   \<and> Date_lt (mk_date (Some 2020) (Some 5) None) (mk_date (Some 2020) (Some 5) (Some 1))"
  using Date_lt_missing_first [of "mk_date None (Some 3) (Some 4)" "mk_date (Some 2020) None None"]
    Date_lt_missing_first [of "mk_date (Some 2020) None (Some 9)" "mk_date (Some 2020) (Some 1) None"]
    Date_lt_missing_first [of "mk_date (Some 2020) (Some 5) None" "mk_date (Some 2020) (Some 5) (Some 1)"]
  by (simp add: mk_date_def)

text \<open>
  C9. The comparison is not a strict order: a date without a year is below itself,
  and so is a date with a year and without a month. Hence the comparison is
  neither irreflexive nor asymmetric.
\<close>

theorem Date_lt_not_strict:
  "(year d = None \<longrightarrow> Date_lt d d)
   \<and> (year d \<noteq> None \<and> month d = None \<longrightarrow> Date_lt d d)
   \<and> \<not> (\<forall>a. \<not> Date_lt a a)
   \<and> \<not> (\<forall>a b. Date_lt a b \<longrightarrow> \<not> Date_lt b a)"
proof -
  have self: "Date_lt (mk_date None None None) (mk_date None None None)"
    by (simp add: Date_lt_def mk_date_def)
  have "\<not> (\<forall>a. \<not> Date_lt a a)"
    using self by blast
  moreover have "\<not> (\<forall>a b. Date_lt a b \<longrightarrow> \<not> Date_lt b a)"
    using self by blast
  moreover have "year d = None \<longrightarrow> Date_lt d d"
    by (simp add: Date_lt_def)
  moreover have "year d \<noteq> None \<and> month d = None \<longrightarrow> Date_lt d d"
    by (auto simp: Date_lt_def split: option.splits)
  ultimately show ?thesis by blast
qed

theorem Date_lt_not_strict_witness:
  "Date_lt (mk_date None (Some 1) (Some 1)) (mk_date None (Some 1) (Some 1))
   \<and> Date_lt (mk_date (Some 2024) None (Some 1)) (mk_date (Some 2024) None (Some 1))"
  using Date_lt_not_strict [of "mk_date None (Some 1) (Some 1)"]
    Date_lt_not_strict [of "mk_date (Some 2024) None (Some 1)"]
  by (simp add: mk_date_def)

end
